theory Spec2Isabelle
  imports Main "HOL-Library.Sublist"
begin

section \<open>The alarm sketch (Alarma.ino): board state and library calls\<close>

text \<open>
  The sketch drives three GPIO output pins and an embedded web server. The model keeps
  the level last written to every pin, the chronological log of the library calls the
  sketch has made, the response headers queued for the next response, the responses
  already sent, the registered routes and whether the server has been started.
  Every library call of the source is one function on this state; each appends exactly
  one entry to the call log, so the log is the execution trace of the sketch.
\<close>

datatype level = LOW | HIGH

datatype pin_mode = INPUT | OUTPUT

text \<open>The three callbacks passed to \<open>server.on\<close>: the named function and the two lambdas.\<close>

datatype handler = HandleRoot | OnLambda | OffLambda

type_synonym IPAddress = "nat \<times> nat \<times> nat \<times> nat"

type_synonym pins = "int \<Rightarrow> level"

datatype event =
    PinMode int pin_mode
  | SerialBegin nat
  | SoftAP string string
  | SoftAPIP
  | SerialPrint string
  | SerialPrintln string
  | SerialPrintlnIP IPAddress
  | ServerOn string handler
  | ServerBegin
  | DigitalWrite int level
  | Delay nat
  | SendHeader string string
  | Send nat "string option" string

record response =
  status :: nat
  content_type :: "string option"
  resp_headers :: "(string \<times> string) list"
  body :: string

record board =
  gpio :: pins
  events :: "event list"
  headers :: "(string \<times> string) list"
  responses :: "response list"
  routes :: "(string \<times> handler) list"
  listening :: bool

subsection \<open>Constants of the sketch\<close>

definition ssid :: string where
  "ssid = ''Alarma''"

definition password :: string where
  "password = ''contrasenasegura''"

definition led1 :: int where
  "led1 = 27"

definition led2 :: int where
  "led2 = 26"

definition buzzer :: int where
  "buzzer = 25"

subsection \<open>Library calls\<close>

text \<open>
  \<open>digitalWrite\<close> sets the level of one pin and leaves every other pin alone;
  \<open>delay\<close> only lets time pass (its argument is in milliseconds).
\<close>

definition pinMode :: "int \<Rightarrow> pin_mode \<Rightarrow> board \<Rightarrow> board" where
  "pinMode pin m s = s\<lparr>events := events s @ [PinMode pin m]\<rparr>"

definition digitalWrite :: "int \<Rightarrow> level \<Rightarrow> board \<Rightarrow> board" where
  "digitalWrite pin val s =
     s\<lparr>gpio := (gpio s)(pin := val), events := events s @ [DigitalWrite pin val]\<rparr>"

definition delay :: "nat \<Rightarrow> board \<Rightarrow> board" where
  "delay ms s = s\<lparr>events := events s @ [Delay ms]\<rparr>"

definition Serial_begin :: "nat \<Rightarrow> board \<Rightarrow> board" where
  "Serial_begin baud s = s\<lparr>events := events s @ [SerialBegin baud]\<rparr>"

definition Serial_print :: "string \<Rightarrow> board \<Rightarrow> board" where
  "Serial_print txt s = s\<lparr>events := events s @ [SerialPrint txt]\<rparr>"

definition Serial_println :: "string \<Rightarrow> board \<Rightarrow> board" where
  "Serial_println txt s = s\<lparr>events := events s @ [SerialPrintln txt]\<rparr>"

definition Serial_println_ip :: "IPAddress \<Rightarrow> board \<Rightarrow> board" where
  "Serial_println_ip ip s = s\<lparr>events := events s @ [SerialPrintlnIP ip]\<rparr>"

text \<open>
  \<open>WiFi.softAP\<close> and \<open>WiFi.softAPIP\<close> ask the radio; what they return is an input of the
  model (\<open>ap_ok\<close> and \<open>ip\<close> of \<open>setup_sketch\<close> below). Here only the call is logged.
\<close>

definition WiFi_softAP :: "string \<Rightarrow> string \<Rightarrow> board \<Rightarrow> board" where
  "WiFi_softAP name pass s = s\<lparr>events := events s @ [SoftAP name pass]\<rparr>"

definition WiFi_softAPIP :: "board \<Rightarrow> board" where
  "WiFi_softAPIP s = s\<lparr>events := events s @ [SoftAPIP]\<rparr>"

definition server_on :: "string \<Rightarrow> handler \<Rightarrow> board \<Rightarrow> board" where
  "server_on path h s =
     s\<lparr>routes := routes s @ [(path, h)], events := events s @ [ServerOn path h]\<rparr>"

definition server_begin :: "board \<Rightarrow> board" where
  "server_begin s = s\<lparr>listening := True, events := events s @ [ServerBegin]\<rparr>"

text \<open>
  \<open>sendHeader\<close> queues a header for the next response. \<open>send\<close> emits a response with the
  given status, content type (\<open>None\<close> when the argument is omitted, as in \<open>send(303)\<close>),
  the queued headers and the body, and empties the queue.
\<close>

definition sendHeader :: "string \<Rightarrow> string \<Rightarrow> board \<Rightarrow> board" where
  "sendHeader name val s =
     s\<lparr>headers := headers s @ [(name, val)], events := events s @ [SendHeader name val]\<rparr>"

definition send :: "nat \<Rightarrow> string option \<Rightarrow> string \<Rightarrow> board \<Rightarrow> board" where
  "send code ctype content s =
     s\<lparr>responses := responses s @
          [\<lparr>status = code, content_type = ctype, resp_headers = headers s, body = content\<rparr>],
       headers := [],
       events := events s @ [Send code ctype content]\<rparr>"

section \<open>The sketch\<close>

subsection \<open>handleRoot\<close>

text \<open>The page is built by appending string pieces, in the order of the source.\<close>

definition root_html :: string where
  "root_html =
    (let html = ''<!DOCTYPE html><html><head><meta charset='UTF-8'><title>Control</title></head>'';
         html = html @ ''<body style='margin: 0; height: 100vh; display: flex; flex-direction: column; justify-content: center; align-items: center;'';
         html = html @ ''background: linear-gradient(to right, #0b2e13, #1d6b2f); font-family: Arial, sans-serif;'>'';
         html = html @ ''<h1 style='color: white; font-size: 60px; margin-bottom: 40px;'>Control de Alarma</h1>'';
         html = html @ ''<p><a href='/on'><button style='padding: 20px 40px; font-size: 40px; border-radius: 30px; margin: 20px;'>ON</button></a></p>'';
         html = html @ ''<p><a href='/off'><button style='padding: 20px 40px; font-size: 40px; border-radius: 30px; margin: 20px;'>OFF</button></a></p>'';
         html = html @ ''</body></html>''
     in html)"

definition handleRoot :: "board \<Rightarrow> board" where
  "handleRoot s = send 200 (Some ''text/html'') root_html s"

subsection \<open>The /on lambda\<close>

text \<open>One pass through the body of the \<open>for\<close> loop.\<close>

definition on_body :: "board \<Rightarrow> board" where
  "on_body s =
    (let s = digitalWrite led1 HIGH s;
         s = digitalWrite led2 LOW s;
         s = digitalWrite buzzer HIGH s;
         s = delay 500 s;
         s = digitalWrite led1 LOW s;
         s = digitalWrite led2 HIGH s;
         s = digitalWrite buzzer LOW s;
         s = delay 500 s
     in s)"

text \<open>
  \<open>for (int i = 0; i < 3; i++)\<close>: the counter is a C \<open>int\<close>; it only takes the values
  0 to 3 here, far from the range where it would wrap, so it is an \<open>int\<close>.
\<close>

function on_loop :: "int \<Rightarrow> board \<Rightarrow> board" where
  "on_loop i s = (if i < 3 then on_loop (i + 1) (on_body s) else s)"
  by pat_completeness auto
termination
  by (relation "measure (\<lambda>(i, s). nat (3 - i))") auto

declare on_loop.simps [simp del]

definition on_handler :: "board \<Rightarrow> board" where
  "on_handler s =
    (let s = on_loop 0 s;
         s = digitalWrite led1 HIGH s;
         s = digitalWrite buzzer HIGH s;
         s = delay 500 s;
         s = sendHeader ''Location'' ''/'' s;
         s = send 303 None [] s
     in s)"

subsection \<open>The /off lambda\<close>

definition off_handler :: "board \<Rightarrow> board" where
  "off_handler s =
    (let s = digitalWrite led1 LOW s;
         s = digitalWrite led2 LOW s;
         s = digitalWrite buzzer LOW s;
         s = sendHeader ''Location'' ''/'' s;
         s = send 303 None [] s
     in s)"

text \<open>What the server runs for a registered callback.\<close>

fun call :: "handler \<Rightarrow> board \<Rightarrow> board" where
  "call HandleRoot s = handleRoot s"
| "call OnLambda s = on_handler s"
| "call OffLambda s = off_handler s"

subsection \<open>setup\<close>

text \<open>
  \<open>while (true);\<close> has an empty body and a condition that never fails: it never returns.
\<close>

partial_function (option) spin :: "unit \<Rightarrow> unit option" where
  "spin u = (if True then spin u else Some u)"

text \<open>
  \<open>setup_sketch ap_ok ip s\<close> is the function \<open>setup\<close> of the sketch; \<open>ap_ok\<close> is what
  \<open>WiFi.softAP\<close> returns and \<open>ip\<close> what \<open>WiFi.softAPIP\<close> returns. The result is the
  board as the last executed statement left it, and \<open>Some ()\<close> when \<open>setup\<close>
  returns to its caller, \<open>None\<close> when it never does.
\<close>

definition setup_sketch :: "bool \<Rightarrow> IPAddress \<Rightarrow> board \<Rightarrow> board \<times> unit option" where
  "setup_sketch ap_ok ip s =
    (let s = pinMode led1 OUTPUT s;
         s = pinMode led2 OUTPUT s;
         s = pinMode buzzer OUTPUT s;
         s = Serial_begin 115200 s;
         s = WiFi_softAP ssid password s
     in if \<not> ap_ok then
          (let s = Serial_println ''Error al crear el Access Point.'' s
           in (s, spin ()))
        else
          (let s = WiFi_softAPIP s;
               s = Serial_print (''Direcci'' @ [CHR 0xC3, CHR 0xB3] @ ''n IP del AP: '') s;
               s = Serial_println_ip ip s;
               s = server_on ''/'' HandleRoot s;
               s = server_on ''/on'' OnLambda s;
               s = server_on ''/off'' OffLambda s;
               s = server_begin s;
               s = Serial_println ''Servidor HTTP iniciado'' s
           in (s, Some ())))"

section \<open>Reading the execution trace\<close>

text \<open>
  The pin levels at any point of a run are recovered from the call log: replaying the
  log from the starting levels gives the levels after each call. \<open>trace_states\<close> lists
  the levels at every point of a trace (before the first call, and after each call);
  \<open>pause_states\<close> lists the levels that hold during each \<open>delay\<close>.
\<close>

fun apply_event :: "event \<Rightarrow> pins \<Rightarrow> pins" where
  "apply_event (DigitalWrite pin val) g = g(pin := val)"
| "apply_event _ g = g"

fun replay :: "pins \<Rightarrow> event list \<Rightarrow> pins" where
  "replay g [] = g"
| "replay g (e # es) = replay (apply_event e g) es"

fun trace_states :: "pins \<Rightarrow> event list \<Rightarrow> pins list" where
  "trace_states g [] = [g]"
| "trace_states g (e # es) = g # trace_states (apply_event e g) es"

fun pause_states :: "pins \<Rightarrow> event list \<Rightarrow> pins list" where
  "pause_states g [] = []"
| "pause_states g (Delay ms # es) = g # pause_states g es"
| "pause_states g (e # es) = pause_states (apply_event e g) es"

text \<open>The levels of indicator A, indicator B and the audible line.\<close>

definition sample :: "pins \<Rightarrow> level \<times> level \<times> level" where
  "sample g = (g led1, g led2, g buzzer)"

text \<open>Indicator A and indicator B differ, and the audible line equals indicator A.\<close>

definition alternating :: "pins \<Rightarrow> bool" where
  "alternating g \<longleftrightarrow> g led1 \<noteq> g led2 \<and> g buzzer = g led1"

text \<open>The calls a handler makes when started in state \<open>s\<close>: what it appends to the log.\<close>

definition emitted :: "(board \<Rightarrow> board) \<Rightarrow> board \<Rightarrow> event list" where
  "emitted h s = drop (length (events s)) (events (h s))"

fun total_delay :: "event list \<Rightarrow> nat" where
  "total_delay [] = 0"
| "total_delay (Delay ms # es) = ms + total_delay es"
| "total_delay (e # es) = total_delay es"

text \<open>A board on which nothing has happened yet and every pin is low.\<close>

definition all_low :: board where
  "all_low = \<lparr>gpio = (\<lambda>pin. LOW), events = [], headers = [], responses = [],
     routes = [], listening = False\<rparr>"

section \<open>Effect of each library call on each part of the state\<close>

lemma digitalWrite_fields [simp]:
  "gpio (digitalWrite pin val s) = (gpio s)(pin := val)"
  "events (digitalWrite pin val s) = events s @ [DigitalWrite pin val]"
  "headers (digitalWrite pin val s) = headers s"
  "responses (digitalWrite pin val s) = responses s"
  "routes (digitalWrite pin val s) = routes s"
  "listening (digitalWrite pin val s) = listening s"
  by (simp_all add: digitalWrite_def)

lemma delay_fields [simp]:
  "gpio (delay ms s) = gpio s"
  "events (delay ms s) = events s @ [Delay ms]"
  "headers (delay ms s) = headers s"
  "responses (delay ms s) = responses s"
  "routes (delay ms s) = routes s"
  "listening (delay ms s) = listening s"
  by (simp_all add: delay_def)

lemma sendHeader_fields [simp]:
  "gpio (sendHeader name val s) = gpio s"
  "events (sendHeader name val s) = events s @ [SendHeader name val]"
  "headers (sendHeader name val s) = headers s @ [(name, val)]"
  "responses (sendHeader name val s) = responses s"
  "routes (sendHeader name val s) = routes s"
  "listening (sendHeader name val s) = listening s"
  by (simp_all add: sendHeader_def)

lemma send_fields [simp]:
  "gpio (send code ctype content s) = gpio s"
  "events (send code ctype content s) = events s @ [Send code ctype content]"
  "headers (send code ctype content s) = []"
  "responses (send code ctype content s) = responses s @
     [\<lparr>status = code, content_type = ctype, resp_headers = headers s, body = content\<rparr>]"
  "routes (send code ctype content s) = routes s"
  "listening (send code ctype content s) = listening s"
  by (simp_all add: send_def)

lemma pinMode_fields [simp]:
  "gpio (pinMode pin m s) = gpio s"
  "events (pinMode pin m s) = events s @ [PinMode pin m]"
  "routes (pinMode pin m s) = routes s"
  "listening (pinMode pin m s) = listening s"
  by (simp_all add: pinMode_def)

lemma Serial_fields [simp]:
  "gpio (Serial_begin baud s) = gpio s"
  "events (Serial_begin baud s) = events s @ [SerialBegin baud]"
  "routes (Serial_begin baud s) = routes s"
  "listening (Serial_begin baud s) = listening s"
  "gpio (Serial_print txt s) = gpio s"
  "events (Serial_print txt s) = events s @ [SerialPrint txt]"
  "routes (Serial_print txt s) = routes s"
  "listening (Serial_print txt s) = listening s"
  "gpio (Serial_println txt s) = gpio s"
  "events (Serial_println txt s) = events s @ [SerialPrintln txt]"
  "routes (Serial_println txt s) = routes s"
  "listening (Serial_println txt s) = listening s"
  "gpio (Serial_println_ip ip s) = gpio s"
  "events (Serial_println_ip ip s) = events s @ [SerialPrintlnIP ip]"
  "routes (Serial_println_ip ip s) = routes s"
  "listening (Serial_println_ip ip s) = listening s"
  by (simp_all add: Serial_begin_def Serial_print_def Serial_println_def
      Serial_println_ip_def)

lemma WiFi_fields [simp]:
  "gpio (WiFi_softAP name pass s) = gpio s"
  "events (WiFi_softAP name pass s) = events s @ [SoftAP name pass]"
  "routes (WiFi_softAP name pass s) = routes s"
  "listening (WiFi_softAP name pass s) = listening s"
  "gpio (WiFi_softAPIP s) = gpio s"
  "events (WiFi_softAPIP s) = events s @ [SoftAPIP]"
  "routes (WiFi_softAPIP s) = routes s"
  "listening (WiFi_softAPIP s) = listening s"
  by (simp_all add: WiFi_softAP_def WiFi_softAPIP_def)

lemma server_fields [simp]:
  "gpio (server_on path h s) = gpio s"
  "events (server_on path h s) = events s @ [ServerOn path h]"
  "routes (server_on path h s) = routes s @ [(path, h)]"
  "listening (server_on path h s) = listening s"
  "gpio (server_begin s) = gpio s"
  "events (server_begin s) = events s @ [ServerBegin]"
  "routes (server_begin s) = routes s"
  "listening (server_begin s) = True"
  by (simp_all add: server_on_def server_begin_def)

section \<open>The loop of the /on lambda\<close>

lemma on_body_gpio:
  "gpio (on_body s) = (gpio s)(led1 := LOW, led2 := HIGH, buzzer := LOW)"
  by (simp add: on_body_def Let_def led1_def led2_def buzzer_def fun_eq_iff)

lemma on_body_events:
  "events (on_body s) = events s @
     [DigitalWrite led1 HIGH, DigitalWrite led2 LOW, DigitalWrite buzzer HIGH, Delay 500,
      DigitalWrite led1 LOW, DigitalWrite led2 HIGH, DigitalWrite buzzer LOW, Delay 500]"
  by (simp add: on_body_def Let_def)

lemma on_body_server:
  "headers (on_body s) = headers s"
  "responses (on_body s) = responses s"
  "routes (on_body s) = routes s"
  "listening (on_body s) = listening s"
  by (simp_all add: on_body_def Let_def)

text \<open>Started at 0, the loop runs its body three times.\<close>

lemma on_loop_three: "on_loop 0 s = on_body (on_body (on_body s))"
  by (simp add: on_loop.simps [of 0] on_loop.simps [of 1] on_loop.simps [of 2]
      on_loop.simps [of 3])

text \<open>From any counter value, the number of passes depends on the counter alone.\<close>

lemma on_loop_iterations: "on_loop i s = (on_body ^^ nat (3 - i)) s"
proof (induction i s rule: on_loop.induct)
  case (1 i s)
  show ?case
  proof (cases "i < 3")
    case True
    then have "nat (3 - i) = Suc (nat (3 - (i + 1)))"
      by simp
    with True 1 show ?thesis
      by (simp add: on_loop.simps [of i] funpow_swap1)
  next
    case False
    then show ?thesis
      by (simp add: on_loop.simps [of i])
  qed
qed

lemma emitted_on_loop:
  "emitted (on_loop 0) s =
     [DigitalWrite led1 HIGH, DigitalWrite led2 LOW, DigitalWrite buzzer HIGH, Delay 500,
      DigitalWrite led1 LOW, DigitalWrite led2 HIGH, DigitalWrite buzzer LOW, Delay 500,
      DigitalWrite led1 HIGH, DigitalWrite led2 LOW, DigitalWrite buzzer HIGH, Delay 500,
      DigitalWrite led1 LOW, DigitalWrite led2 HIGH, DigitalWrite buzzer LOW, Delay 500,
      DigitalWrite led1 HIGH, DigitalWrite led2 LOW, DigitalWrite buzzer HIGH, Delay 500,
      DigitalWrite led1 LOW, DigitalWrite led2 HIGH, DigitalWrite buzzer LOW, Delay 500]"
  by (simp add: emitted_def on_loop_three on_body_events)

text \<open>
  The call log says what happened to the pins: replaying what the loop logged, from the
  levels it started with, ends in the levels the loop leaves.
\<close>

lemma replay_on_loop: "replay (gpio s) (emitted (on_loop 0) s) = gpio (on_loop 0 s)"
  by (simp add: emitted_on_loop on_loop_three on_body_gpio led1_def led2_def buzzer_def
      fun_eq_iff)

section \<open>The endless loop of setup\<close>

lemma spin_not_Some:
  assumes "spin u = Some y"
  shows False
  by (rule spin.raw_induct [where P = "\<lambda>_ _. False", rotated, OF assms]) simp

lemma spin_never_returns: "spin u = None"
  using spin_not_Some [of u] by (cases "spin u") auto

text \<open>
  When the access point comes up, setup registers the three routes in this order and
  starts the server.
\<close>

lemma setup_registers_routes:
  "ap_ok \<Longrightarrow>
     routes (fst (setup_sketch ap_ok ip s)) =
       routes s @ [(''/'', HandleRoot), (''/on'', OnLambda), (''/off'', OffLambda)] \<and>
     listening (fst (setup_sketch ap_ok ip s))"
  by (simp add: setup_sketch_def Let_def)

section \<open>The /off route\<close>

text \<open>
  C1. Whatever the three pins held before, the /off handler writes indicator A, indicator B
  and the audible line low, one write after the other with no pause and nothing else in
  between, and then sends a 303 response carrying the header Location: /.
\<close>

theorem off_handler_clears_then_redirects:
  "gpio (off_handler s) led1 = LOW \<and>
   gpio (off_handler s) led2 = LOW \<and>
   gpio (off_handler s) buzzer = LOW \<and>
   events (off_handler s) = events s @
     [DigitalWrite led1 LOW, DigitalWrite led2 LOW, DigitalWrite buzzer LOW,
      SendHeader ''Location'' ''/'', Send 303 None []] \<and>
   responses (off_handler s) = responses s @
     [\<lparr>status = 303, content_type = None,
       resp_headers = headers s @ [(''Location'', ''/'')], body = []\<rparr>]"
  by (simp add: off_handler_def Let_def led1_def led2_def buzzer_def)

text \<open>
  C5. Running the /off handler twice in a row leaves the pins exactly as running it once
  does, for every starting state.
\<close>

theorem off_handler_idempotent_on_pins:
  "gpio (off_handler (off_handler s)) = gpio (off_handler s)"
  by (simp add: off_handler_def Let_def led1_def led2_def buzzer_def fun_eq_iff)

section \<open>The /on route\<close>

text \<open>
  C2. The /on handler makes exactly these calls, in this order: three times (indicator A
  high, indicator B low, audible line high, pause 500 ms; indicator A low, indicator B
  high, audible line low, pause 500 ms), then indicator A high, audible line high, pause
  500 ms, and only then the header Location: / and the 303 response.
\<close>

theorem on_handler_sequence:
  "events (on_handler s) = events s @
     [DigitalWrite led1 HIGH, DigitalWrite led2 LOW, DigitalWrite buzzer HIGH, Delay 500,
      DigitalWrite led1 LOW, DigitalWrite led2 HIGH, DigitalWrite buzzer LOW, Delay 500,
      DigitalWrite led1 HIGH, DigitalWrite led2 LOW, DigitalWrite buzzer HIGH, Delay 500,
      DigitalWrite led1 LOW, DigitalWrite led2 HIGH, DigitalWrite buzzer LOW, Delay 500,
      DigitalWrite led1 HIGH, DigitalWrite led2 LOW, DigitalWrite buzzer HIGH, Delay 500,
      DigitalWrite led1 LOW, DigitalWrite led2 HIGH, DigitalWrite buzzer LOW, Delay 500,
      DigitalWrite led1 HIGH, DigitalWrite buzzer HIGH, Delay 500,
      SendHeader ''Location'' ''/'', Send 303 None []] \<and>
   responses (on_handler s) = responses s @
     [\<lparr>status = 303, content_type = None,
       resp_headers = headers s @ [(''Location'', ''/'')], body = []\<rparr>]"
  by (simp add: on_handler_def Let_def on_loop_three on_body_events on_body_server)

text \<open>
  C3. Whatever the three pins held before, when the /on handler has finished indicator A
  is high and the audible line is high.
\<close>

theorem on_handler_leaves_led1_and_buzzer_high:
  "gpio (on_handler s) led1 = HIGH \<and> gpio (on_handler s) buzzer = HIGH"
  by (simp add: on_handler_def Let_def led1_def buzzer_def)

text \<open>
  C9. When the /on handler has finished indicator B is high as well: the loop leaves it
  high, the final phase does not touch it, and so all three pins are high whatever they
  held before.
\<close>

theorem on_handler_leaves_led2_high:
  "gpio (on_loop 0 s) led2 = HIGH \<and>
   gpio (on_handler s) led2 = gpio (on_loop 0 s) led2 \<and>
   sample (gpio (on_handler s)) = (HIGH, HIGH, HIGH)"
  by (simp add: on_handler_def Let_def on_loop_three on_body_gpio sample_def
      led1_def led2_def buzzer_def)

text \<open>
  C4, as stated: at every point of the trace of the three-repetition loop indicator A and
  indicator B hold opposite levels and the audible line equals indicator A. This fails
  between the writes that open a phase. Started with every pin low, after the fifth call
  of the loop (the write that takes indicator A low at the start of the second phase)
  indicator A and indicator B are both low and the audible line is still high.
\<close>

theorem loop_trace_not_alternating_between_writes:
  "sample (trace_states (gpio all_low) (emitted (on_loop 0) all_low) ! 5) = (LOW, LOW, HIGH) \<and>
   \<not> alternating (trace_states (gpio all_low) (emitted (on_loop 0) all_low) ! 5)"
  by (simp add: emitted_on_loop sample_def alternating_def led1_def led2_def buzzer_def
      all_low_def)

text \<open>
  C4, amended: during each of the six pauses of the three-repetition loop, for every
  starting state, indicator A and indicator B hold opposite levels and the audible line
  equals indicator A; the levels held during the six pauses are (high, low, high) and
  (low, high, low) in turn.
\<close>

theorem loop_pauses_alternating:
  "map sample (pause_states (gpio s) (emitted (on_loop 0) s)) =
     [(HIGH, LOW, HIGH), (LOW, HIGH, LOW), (HIGH, LOW, HIGH), (LOW, HIGH, LOW),
      (HIGH, LOW, HIGH), (LOW, HIGH, LOW)] \<and>
   list_all alternating (pause_states (gpio s) (emitted (on_loop 0) s))"
  by (simp add: emitted_on_loop sample_def alternating_def led1_def led2_def buzzer_def)

text \<open>
  C8. The alarm sequence always runs to completion. From any counter value the loop makes
  as many passes as the counter leaves below three and then exits, so three passes from
  zero; nothing in the state can end it earlier. Every invocation of the /on handler
  makes the same 29 calls, whatever the state, pausing 3500 ms in total.
\<close>

theorem on_handler_runs_to_completion:
  "on_loop i s = (on_body ^^ nat (3 - i)) s \<and>
   on_loop 0 s = on_body (on_body (on_body s)) \<and>
   emitted on_handler s = emitted on_handler s' \<and>
   length (emitted on_handler s) = 29 \<and>
   total_delay (emitted on_handler s) = 3500"
proof -
  have passes: "on_loop i s = (on_body ^^ nat (3 - i)) s"
    by (rule on_loop_iterations)
  have calls: "emitted on_handler t = emitted (on_loop 0) t @
      [DigitalWrite led1 HIGH, DigitalWrite buzzer HIGH, Delay 500,
       SendHeader ''Location'' ''/'', Send 303 None []]" for t
    by (simp add: emitted_def on_handler_def Let_def on_loop_three on_body_events)
  have same: "emitted on_handler s = emitted on_handler s'"
    by (simp add: calls emitted_on_loop)
  have count: "length (emitted on_handler s) = 29"
    by (simp add: calls emitted_on_loop)
  have pause: "total_delay (emitted on_handler s) = 3500"
    by (simp add: calls emitted_on_loop)
  from passes on_loop_three [of s] same count pause show ?thesis
    by blast
qed

section \<open>The root route\<close>

text \<open>
  C6. The root handler always answers with status 200 and content type text/html, and the
  page it sends contains a link to /on and a link to /off.
\<close>

theorem handleRoot_sends_control_page:
  "responses (handleRoot s) = responses s @
     [\<lparr>status = 200, content_type = Some ''text/html'', resp_headers = headers s,
       body = root_html\<rparr>] \<and>
   sublist ''<a href='/on'>'' root_html \<and>
   sublist ''<a href='/off'>'' root_html"
  by (simp add: handleRoot_def root_html_def Let_def sublist_code prefix_code)

text \<open>
  C10. The root handler writes no pin: the levels of all pins are unchanged, and the only
  call it makes is the one that sends the page.
\<close>

theorem handleRoot_leaves_pins:
  "gpio (handleRoot s) = gpio s \<and>
   events (handleRoot s) = events s @ [Send 200 (Some ''text/html'') root_html]"
  by (simp add: handleRoot_def)

section \<open>Failure of the access point\<close>

text \<open>
  C7. When the access point cannot be created, setup prints the error line on the serial
  port and never returns: it asked for the access point once, printed the line, and made no
  further call, so no route is registered and the server is not started. This is the only
  way setup fails to return: when the access point is created, setup returns.
\<close>

theorem setup_halts_when_access_point_fails:
  "(\<not> ap_ok \<longrightarrow>
      snd (setup_sketch ap_ok ip s) = None \<and>
      events (fst (setup_sketch ap_ok ip s)) = events s @
        [PinMode led1 OUTPUT, PinMode led2 OUTPUT, PinMode buzzer OUTPUT, SerialBegin 115200,
         SoftAP ssid password, SerialPrintln ''Error al crear el Access Point.''] \<and>
      routes (fst (setup_sketch ap_ok ip s)) = routes s \<and>
      listening (fst (setup_sketch ap_ok ip s)) = listening s) \<and>
   (ap_ok \<longrightarrow> snd (setup_sketch ap_ok ip s) = Some ())"
  by (simp add: setup_sketch_def Let_def spin_never_returns)

theorem setup_halts_when_access_point_fails_witness:
  "\<not> False \<and>
   snd (setup_sketch False (192, 168, 4, 1) all_low) = None \<and>
   events (fst (setup_sketch False (192, 168, 4, 1) all_low)) =
     [PinMode 27 OUTPUT, PinMode 26 OUTPUT, PinMode 25 OUTPUT, SerialBegin 115200,
      SoftAP ''Alarma'' ''contrasenasegura'',
      SerialPrintln ''Error al crear el Access Point.''] \<and>
   routes (fst (setup_sketch False (192, 168, 4, 1) all_low)) = [] \<and>
   \<not> listening (fst (setup_sketch False (192, 168, 4, 1) all_low)) \<and>
   True \<and>
   snd (setup_sketch True (192, 168, 4, 1) all_low) = Some ()"
  using setup_halts_when_access_point_fails [of False "(192, 168, 4, 1)" all_low]
    setup_halts_when_access_point_fails [of True "(192, 168, 4, 1)" all_low]
  by (simp add: all_low_def led1_def led2_def buzzer_def ssid_def password_def)

end
